theory Spec2Isabelle
  imports Main "HOL-Library.Word"
begin

section \<open>Go values handled by the transaction test harness\<close>

text \<open>
  The development embeds \<^verbatim>\<open>TransactionTest.Run\<close> and \<^verbatim>\<open>ttTransaction.verify\<close>
  (package \<^verbatim>\<open>tests\<close>). A Go call either returns or panics; a returned \<^verbatim>\<open>error\<close> is
  \<open>None\<close> for \<^verbatim>\<open>nil\<close>.
\<close>

type_synonym byte = "8 word"

type_synonym uint64 = "64 word"

datatype 'a outcome = Returns 'a | Panics

text \<open>
  A value of Go's \<^verbatim>\<open>error\<close> interface. \<^verbatim>\<open>errors.New\<close> and \<^verbatim>\<open>fmt.Errorf\<close> build an
  \<^verbatim>\<open>errorString\<close>, a struct whose only field is the message. An error that a collaborator
  hands back has some other dynamic type \<open>'e\<close>.
\<close>

datatype 'e error = is_ErrorString: ErrorString string | Collaborator 'e

text \<open>
  Modelled from the spec: \<^verbatim>\<open>common.Address\<close> is not under src/. The spec's data model gives
  an Address as exactly 20 bytes; in Go it is the array type \<^verbatim>\<open>[20]byte\<close>, compared with
  \<^verbatim>\<open>==\<close> and \<^verbatim>\<open>!=\<close> element by element, whose zero value \<^verbatim>\<open>common.Address{}\<close> is
  all zero.
\<close>

typedef Address = "{bs :: byte list. length bs = 20}"
  by (rule exI [of _ "replicate 20 0"]) simp

definition zero_Address :: Address where
  "zero_Address = Abs_Address (replicate 20 0)"

text \<open>
  Modelled from the spec: \<^verbatim>\<open>common.BytesToAddress\<close> is not under src/. It fills a zero
  Address from a byte slice: a slice longer than 20 bytes is cropped from the left, a shorter
  one is right-aligned, so the absent (nil) and the empty slice both give the all-zero
  Address, the spec's sentinel zero address.
\<close>

definition BytesToAddress :: "byte list \<Rightarrow> Address" where
  "BytesToAddress b =
     (let b' = (if length b > 20 then drop (length b - 20) b else b)
      in Abs_Address (replicate (20 - length b') 0 @ b'))"

text \<open>
  Modelled from the spec: \<^verbatim>\<open>types.Transaction\<close> is not under src/. The record holds what its
  accessors \<^verbatim>\<open>Data()\<close>, \<^verbatim>\<open>Gas()\<close>, \<^verbatim>\<open>GasPrice()\<close>, \<^verbatim>\<open>Nonce()\<close>,
  \<^verbatim>\<open>RawSignatureValues()\<close>, \<^verbatim>\<open>To()\<close> and \<^verbatim>\<open>Value()\<close> return for a decoded
  transaction: the spec's fields nonce and gasLimit (64 bits), gasPrice, value, v, r, s
  (arbitrary precision), data, and to, an optional Address that is absent for a contract
  creation.
\<close>

record types_Transaction =
  tx_Nonce :: uint64
  tx_GasPrice :: int
  tx_Gas :: uint64
  tx_To :: "Address option"
  tx_Value :: int
  tx_Data :: "byte list"
  tx_V :: int
  tx_R :: int
  tx_S :: int

text \<open>
  \<^verbatim>\<open>ttTransaction\<close>: the expected fields of a fixture. The \<^verbatim>\<open>*big.Int\<close> fields are
  pointers: \<open>None\<close> is \<^verbatim>\<open>nil\<close>. (The generated JSON decoder marks every field required, so
  a fixture read from JSON has none of them nil; the struct type itself allows it.)
\<close>

record ttTransaction =
  Data :: "byte list"
  GasLimit :: uint64
  GasPrice :: "int option"
  Nonce :: uint64
  Value :: "int option"
  R :: "int option"
  S :: "int option"
  V :: "int option"
  To :: Address

text \<open>
  \<^verbatim>\<open>ttJSON\<close>: a fixture. \<^verbatim>\<open>Sender\<close> is a \<^verbatim>\<open>hexutil.Bytes\<close> slice, \<open>None\<close> when nil (the
  fixture declares no sender); \<^verbatim>\<open>Transaction\<close> is a pointer, \<open>None\<close> when nil.
\<close>

record ttJSON =
  BlockNumber :: uint64
  RLP :: "byte list"
  Sender :: "byte list option"
  Transaction :: "ttTransaction option"

text \<open>
  The collaborators that \<^verbatim>\<open>Run\<close> calls and that are not under src/: the RLP decoder, the
  signer selection, the sender derivation, the \<^verbatim>\<open>Error()\<close> method of their error values,
  and the \<^verbatim>\<open>%x\<close> formatting of \<^verbatim>\<open>common.Address\<close> and \<^verbatim>\<open>hexutil.Bytes\<close>. The chain
  configuration \<open>'c\<close> and the signer \<open>'s\<close> are theirs too.
\<close>

record ('e, 'c, 's) collaborators =
  rlp_DecodeBytes :: "byte list \<Rightarrow> 'e error + types_Transaction"
  types_MakeSigner :: "'c \<Rightarrow> int \<Rightarrow> 's"
  types_Sender :: "'s \<Rightarrow> types_Transaction \<Rightarrow> 'e error + Address"
  error_Error :: "'e \<Rightarrow> string"
  Address_Format_x :: "Address \<Rightarrow> string"
  Bytes_Format_x :: "byte list option \<Rightarrow> string"

section \<open>Formatting verbs of package fmt\<close>

definition digit :: "nat \<Rightarrow> char" where
  "digit n = ''0123456789abcdef'' ! n"

fun decimal :: "nat \<Rightarrow> string" where
  "decimal n = (if n < 10 then [digit n] else decimal (n div 10) @ [digit (n mod 10)])"

fun hexadecimal :: "nat \<Rightarrow> string" where
  "hexadecimal n = (if n < 16 then [digit n] else hexadecimal (n div 16) @ [digit (n mod 16)])"

text \<open>\<^verbatim>\<open>%d\<close> and \<^verbatim>\<open>%v\<close> of a \<^verbatim>\<open>uint64\<close>.\<close>

definition fmt_d_uint64 :: "uint64 \<Rightarrow> string" where
  "fmt_d_uint64 w = decimal (unat w)"

text \<open>\<^verbatim>\<open>%v\<close> of a non-nil \<^verbatim>\<open>*big.Int\<close>: decimal, with a minus sign when negative.\<close>

definition fmt_v_Int :: "int \<Rightarrow> string" where
  "fmt_v_Int i = (if i < 0 then ''-'' @ decimal (nat (- i)) else decimal (nat i))"

text \<open>\<^verbatim>\<open>%x\<close> of a non-nil \<^verbatim>\<open>*big.Int\<close>: lower-case hexadecimal, no prefix.\<close>

definition fmt_x_Int :: "int \<Rightarrow> string" where
  "fmt_x_Int i = (if i < 0 then ''-'' @ hexadecimal (nat (- i)) else hexadecimal (nat i))"

text \<open>\<^verbatim>\<open>%x\<close> of a \<^verbatim>\<open>[]byte\<close>: two lower-case hexadecimal digits for each byte.\<close>

definition fmt_x_bytes :: "byte list \<Rightarrow> string" where
  "fmt_x_bytes bs = concat (map (\<lambda>b. [digit (unat b div 16), digit (unat b mod 16)]) bs)"

text \<open>\<^verbatim>\<open>%v\<close> and \<^verbatim>\<open>%s\<close> of an error: the text of its \<^verbatim>\<open>Error()\<close> method.\<close>

definition Error :: "('e, 'c, 's) collaborators \<Rightarrow> 'e error \<Rightarrow> string" where
  "Error env err = (case err of ErrorString s \<Rightarrow> s | Collaborator x \<Rightarrow> error_Error env x)"

text \<open>A \<^verbatim>\<open>hexutil.Bytes\<close> passed as a \<^verbatim>\<open>[]byte\<close>: nil has no elements.\<close>

definition bytes_of :: "byte list option \<Rightarrow> byte list" where
  "bytes_of b = (case b of None \<Rightarrow> [] | Some bs \<Rightarrow> bs)"

section \<open>ttTransaction.verify\<close>

text \<open>
  The receiver is a pointer: on nil, reading \<^verbatim>\<open>tt.Data\<close> in the first comparison panics.
  \<^verbatim>\<open>x.Cmp(y)\<close> of package big reads through \<^verbatim>\<open>y\<close> and panics when it is nil. The
  \<^verbatim>\<open>signer\<close> argument is not used.
\<close>

definition verify ::
  "('e, 'c, 's) collaborators \<Rightarrow> ttTransaction option \<Rightarrow> 's \<Rightarrow> types_Transaction
     \<Rightarrow> 'e error option outcome" where
  "verify env receiver signer tx =
    (case receiver of
       None \<Rightarrow> Panics
     | Some tt \<Rightarrow>
        (if tx_Data tx \<noteq> Data tt then
           Returns (Some (ErrorString (''Tx input data mismatch: got '' @ fmt_x_bytes (tx_Data tx)
             @ '' want '' @ fmt_x_bytes (Data tt))))
         else if tx_Gas tx \<noteq> GasLimit tt then
           Returns (Some (ErrorString (''GasLimit mismatch: got '' @ fmt_d_uint64 (tx_Gas tx)
             @ '', want '' @ fmt_d_uint64 (GasLimit tt))))
         else
        (case GasPrice tt of
           None \<Rightarrow> Panics
         | Some gasPrice \<Rightarrow>
        (if tx_GasPrice tx \<noteq> gasPrice then
           Returns (Some (ErrorString (''GasPrice mismatch: got '' @ fmt_v_Int (tx_GasPrice tx)
             @ '', want '' @ fmt_v_Int gasPrice)))
         else if tx_Nonce tx \<noteq> Nonce tt then
           Returns (Some (ErrorString (''Nonce mismatch: got '' @ fmt_d_uint64 (tx_Nonce tx)
             @ '', want '' @ fmt_d_uint64 (Nonce tt))))
         else
        (case R tt of
           None \<Rightarrow> Panics
         | Some r \<Rightarrow>
        (if tx_R tx \<noteq> r then
           Returns (Some (ErrorString (''R mismatch: got '' @ fmt_v_Int (tx_R tx)
             @ '', want '' @ fmt_v_Int r)))
         else
        (case S tt of
           None \<Rightarrow> Panics
         | Some s \<Rightarrow>
        (if tx_S tx \<noteq> s then
           Returns (Some (ErrorString (''S mismatch: got '' @ fmt_v_Int (tx_S tx)
             @ '', want '' @ fmt_v_Int s)))
         else
        (case V tt of
           None \<Rightarrow> Panics
         | Some v \<Rightarrow>
        (if tx_V tx \<noteq> v then
           Returns (Some (ErrorString (''V mismatch: got '' @ fmt_v_Int (tx_V tx)
             @ '', want '' @ fmt_v_Int v)))
         else
        (case (case tx_To tx of
                 None \<Rightarrow>
                   (if To tt \<noteq> zero_Address then
                      Some (ErrorString
                        (''To mismatch when recipient is nil (contract creation): ''
                          @ Address_Format_x env (To tt)))
                    else None)
               | Some to \<Rightarrow>
                   (if to \<noteq> To tt then
                      Some (ErrorString (''To mismatch: got '' @ Address_Format_x env to
                        @ '', want '' @ Address_Format_x env (To tt)))
                    else None)) of
           Some err \<Rightarrow> Returns (Some err)
         | None \<Rightarrow>
        (case Value tt of
           None \<Rightarrow> Panics
         | Some val \<Rightarrow>
        (if tx_Value tx \<noteq> val then
           Returns (Some (ErrorString (''Value mismatch: got '' @ fmt_x_Int (tx_Value tx)
             @ '', want '' @ fmt_x_Int val)))
         else Returns None)))))))))))))"

section \<open>TransactionTest.Run\<close>

text \<open>
  The block number is a \<^verbatim>\<open>uint64\<close> turned into a \<^verbatim>\<open>big.Int\<close>. The sender check compares
  the derived address with \<^verbatim>\<open>common.BytesToAddress(tt.json.Sender)\<close> whether or not the
  fixture declares a sender. After \<^verbatim>\<open>verify\<close>, \<^verbatim>\<open>tt.json.Sender == nil\<close> decides which of
  its two results is the expected one.
\<close>

definition Run ::
  "('e, 'c, 's) collaborators \<Rightarrow> ttJSON \<Rightarrow> 'c \<Rightarrow> 'e error option outcome" where
  "Run env tt config =
    (case rlp_DecodeBytes env (RLP tt) of
       Inl err \<Rightarrow>
         (if Transaction tt = None then Returns None
          else Returns (Some (ErrorString (''RLP DEWHoding failed: '' @ Error env err))))
     | Inr tx \<Rightarrow>
         (let signer = types_MakeSigner env config (uint (BlockNumber tt)) in
          (case types_Sender env signer tx of
             Inl err \<Rightarrow> Returns (Some err)
           | Inr sender \<Rightarrow>
               (if sender \<noteq> BytesToAddress (bytes_of (Sender tt)) then
                  Returns (Some (ErrorString (''Sender mismatch: got ''
                    @ Address_Format_x env sender @ '', want '' @ Bytes_Format_x env (Sender tt))))
                else
               (case verify env (Transaction tt) signer tx of
                  Panics \<Rightarrow> Panics
                | Returns err \<Rightarrow>
                    (if Sender tt = None \<and> err = None then
                       Returns (Some (ErrorString ''field validations succeeded but should fail''))
                     else
                    (case err of
                       Some e \<Rightarrow>
                         (if Sender tt \<noteq> None then
                            Returns (Some (ErrorString
                              (''field validations failed after RLP DEWHoding: '' @ Error env e)))
                          else Returns None)
                     | None \<Rightarrow> Returns None)))))))"

section \<open>Predicates used by the statements\<close>



section \<open>A sample fixture\<close>

text \<open>
  Concrete values on which the theorems below are instantiated: a decoded transaction, the
  expected fields that agree with it, collaborators with fixed results (errors are texts,
  configuration and signer carry nothing, \<^verbatim>\<open>%x\<close> prints the bytes in hexadecimal), and a
  fixture around them.
\<close>

definition sample_address :: Address where
  "sample_address = BytesToAddress [1]"

definition sample_tx :: "Address option \<Rightarrow> types_Transaction" where
  "sample_tx to =
     \<lparr>tx_Nonce = 3, tx_GasPrice = 1000, tx_Gas = 21000, tx_To = to, tx_Value = 255,
      tx_Data = [202, 254], tx_V = 27, tx_R = 5, tx_S = 7\<rparr>"

definition sample_fields :: "Address \<Rightarrow> ttTransaction" where
  "sample_fields to =
     \<lparr>Data = [202, 254], GasLimit = 21000, GasPrice = Some 1000, Nonce = 3, Value = Some 255,
      R = Some 5, S = Some 7, V = Some 27, To = to\<rparr>"

definition sample_collaborators ::
  "string error + types_Transaction \<Rightarrow> string error + Address \<Rightarrow> (string, unit, unit) collaborators"
  where
  "sample_collaborators decoded derived =
     \<lparr>rlp_DecodeBytes = (\<lambda>_. decoded), types_MakeSigner = (\<lambda>_ _. ()),
      types_Sender = (\<lambda>_ _. derived), error_Error = (\<lambda>s. s),
      Address_Format_x = (\<lambda>a. fmt_x_bytes (Rep_Address a)),
      Bytes_Format_x = (\<lambda>b. fmt_x_bytes (bytes_of b))\<rparr>"

definition sample_fixture :: "byte list option \<Rightarrow> ttTransaction option \<Rightarrow> ttJSON" where
  "sample_fixture sender expected =
     \<lparr>BlockNumber = 0, RLP = [192], Sender = sender, Transaction = expected\<rparr>"

section \<open>Auxiliary facts\<close>

subsection \<open>Addresses\<close>

lemma Rep_zero_Address: "Rep_Address zero_Address = replicate 20 0"
  by (simp add: zero_Address_def Abs_Address_inverse)

lemma Rep_BytesToAddress:
  "Rep_Address (BytesToAddress b) =
     replicate (20 - length b) 0 @ drop (length b - 20) b"
  by (simp add: BytesToAddress_def Let_def Abs_Address_inverse)

lemma BytesToAddress_Nil: "BytesToAddress [] = zero_Address"
  by (simp add: BytesToAddress_def zero_Address_def)

lemma Address_eq_iff: "a = b \<longleftrightarrow> Rep_Address a = Rep_Address b"
  by (simp add: Rep_Address_inject)

lemma sample_address_nonzero: "sample_address \<noteq> zero_Address"
  by (simp add: sample_address_def Address_eq_iff Rep_BytesToAddress Rep_zero_Address
      eval_nat_numeral)

lemma Rep_sample_address:
  "Rep_Address sample_address = [0, 0, 0, 0, 0, 0, 0, 0, 0, 0, 0, 0, 0, 0, 0, 0, 0, 0, 0, 1]"
  by (simp add: sample_address_def Rep_BytesToAddress eval_nat_numeral)

lemma sample_address_other: "sample_address \<noteq> BytesToAddress [2]"
  by (simp add: sample_address_def Address_eq_iff Rep_BytesToAddress)

subsection \<open>Formatting on the sample values\<close>

lemma fmt_sample_address:
  "fmt_x_bytes (Rep_Address sample_address) = ''0000000000000000000000000000000000000001''"
  unfolding Rep_sample_address by code_simp

lemma fmt_x_bytes_Nil: "fmt_x_bytes [] = []"
  by (simp add: fmt_x_bytes_def)

lemma fmt_x_bytes_2: "fmt_x_bytes [2] = ''02''"
  by (simp add: fmt_x_bytes_def digit_def)

lemma fmt_zero_Address:
  "fmt_x_bytes (Rep_Address zero_Address) = ''0000000000000000000000000000000000000000''"
  unfolding Rep_zero_Address by code_simp

lemma fmt_x_Int_samples: "fmt_x_Int 255 = ''ff''" "fmt_x_Int 256 = ''100''"
  by (simp_all add: fmt_x_Int_def digit_def)


subsection \<open>Outcomes of verify\<close>

lemma verify_nil: "verify env None signer tx = Panics"
  by (simp add: verify_def)


lemma verify_error_is_message:
  "verify env r signer tx = Returns (Some e) \<Longrightarrow> is_ErrorString e"
  by (auto simp: verify_def split: option.splits if_splits)


lemma verify_sample:
  "verify env (Some (sample_fields zero_Address)) signer (sample_tx None) = Returns None"
  by (simp add: verify_def sample_fields_def sample_tx_def)


section \<open>Decode failure\<close>

text \<open>
  Claim C2. When the rlp bytes of a fixture fail to decode as a transaction, \<^verbatim>\<open>Run\<close>
  returns success if the fixture declares no expected transaction, and returns an error
  that carries the decoder's message if it does.
\<close>

theorem Run_decode_failure:
  assumes "rlp_DecodeBytes env (RLP tt) = Inl err"
  shows "(Transaction tt = None \<longrightarrow> Run env tt config = Returns None) \<and>
         (Transaction tt \<noteq> None \<longrightarrow>
            Run env tt config =
              Returns (Some (ErrorString (''RLP DEWHoding failed: '' @ Error env err))))"
  using assms by (simp add: Run_def)

text \<open>The sample decoder rejects the bytes: without expected transaction the run succeeds, with one it returns the error.\<close>

theorem Run_decode_failure_witness:
  "Run (sample_collaborators (Inl (Collaborator ''rlp: too few elements'')) (Inr sample_address))
       (sample_fixture None None) () = Returns None \<and>
   Run (sample_collaborators (Inl (Collaborator ''rlp: too few elements'')) (Inr sample_address))
       (sample_fixture (Some [1]) (Some (sample_fields zero_Address))) () =
     Returns (Some (ErrorString ''RLP DEWHoding failed: rlp: too few elements''))"
  using
    Run_decode_failure [of
      "sample_collaborators (Inl (Collaborator ''rlp: too few elements'')) (Inr sample_address)"
      "sample_fixture None None" "Collaborator ''rlp: too few elements''" "()"]
    Run_decode_failure [of
      "sample_collaborators (Inl (Collaborator ''rlp: too few elements'')) (Inr sample_address)"
      "sample_fixture (Some [1]) (Some (sample_fields zero_Address))"
      "Collaborator ''rlp: too few elements''" "()"]
  by (simp add: sample_collaborators_def sample_fixture_def Error_def)

section \<open>Sender derivation and the sender check\<close>

text \<open>
  Claim C4. Once the rlp bytes have decoded, \<^verbatim>\<open>Run\<close> derives the sender with the signer
  made from the chain configuration and the fixture's block number. An error of the
  derivation is returned as it is. When the fixture declares a sender and the derived
  address differs from it, \<^verbatim>\<open>Run\<close> returns the sender-mismatch error whose text has the
  derived (got) and the declared (want) address. Both results are reached before
  \<^verbatim>\<open>verify\<close> is called: they do not depend on the expected transaction, which may even be
  absent.
\<close>

theorem Run_sender_check:
  assumes "rlp_DecodeBytes env (RLP tt) = Inr tx"
  shows "(\<forall>err. types_Sender env (types_MakeSigner env config (uint (BlockNumber tt))) tx = Inl err
            \<longrightarrow> Run env tt config = Returns (Some err)) \<and>
         (\<forall>sender want.
            types_Sender env (types_MakeSigner env config (uint (BlockNumber tt))) tx = Inr sender
            \<and> Sender tt = Some want \<and> sender \<noteq> BytesToAddress want
            \<longrightarrow> Run env tt config =
                  Returns (Some (ErrorString (''Sender mismatch: got ''
                    @ Address_Format_x env sender @ '', want '' @ Bytes_Format_x env (Some want)))))"
  using assms by (simp add: Run_def bytes_of_def)

text \<open>A derivation error is returned unchanged, and a declared sender \<open>02\<close> against the derived \<open>00..01\<close> is a mismatch, in both cases for a fixture without expected transaction.\<close>

theorem Run_sender_check_witness:
  "Run (sample_collaborators (Inr (sample_tx None))
          (Inl (ErrorString ''invalid transaction v, r, s values'')))
     (sample_fixture (Some [1]) None) ()
     = Returns (Some (ErrorString ''invalid transaction v, r, s values'')) \<and>
   Run (sample_collaborators (Inr (sample_tx None)) (Inr sample_address))
     (sample_fixture (Some [2]) None) ()
     = Returns (Some (ErrorString
         ''Sender mismatch: got 0000000000000000000000000000000000000001, want 02''))"
  using
    Run_sender_check [of
      "sample_collaborators (Inr (sample_tx None))
         (Inl (ErrorString ''invalid transaction v, r, s values''))"
      "sample_fixture (Some [1]) None" "sample_tx None" "()"]
    Run_sender_check [of
      "sample_collaborators (Inr (sample_tx None)) (Inr sample_address)"
      "sample_fixture (Some [2]) None" "sample_tx None" "()"]
  by (simp add: sample_collaborators_def sample_fixture_def sample_address_other
      fmt_sample_address fmt_x_bytes_2 bytes_of_def)

text \<open>
  Claim C7. When the fixture declares no sender, the derived sender is compared with
  \<^verbatim>\<open>BytesToAddress\<close> of the nil slice, the all-zero Address. A derived sender other than
  the zero Address gives the sender-mismatch error; only for the zero Address does the
  outcome of \<^verbatim>\<open>verify\<close> decide the result.
\<close>

theorem Run_undeclared_sender:
  assumes "rlp_DecodeBytes env (RLP tt) = Inr tx"
    and "types_Sender env (types_MakeSigner env config (uint (BlockNumber tt))) tx = Inr sender"
    and "Sender tt = None"
  shows "(sender \<noteq> zero_Address \<longrightarrow>
            Run env tt config =
              Returns (Some (ErrorString (''Sender mismatch: got '' @ Address_Format_x env sender
                @ '', want '' @ Bytes_Format_x env None)))) \<and>
         (sender = zero_Address \<longrightarrow>
            Run env tt config =
              (case verify env (Transaction tt) (types_MakeSigner env config (uint (BlockNumber tt))) tx of
                 Panics \<Rightarrow> Panics
               | Returns None \<Rightarrow>
                   Returns (Some (ErrorString ''field validations succeeded but should fail''))
               | Returns (Some e) \<Rightarrow> Returns None))"
  using assms
  by (simp add: Run_def bytes_of_def BytesToAddress_Nil split: outcome.splits option.splits)

text \<open>Without declared sender, the derived sender \<open>00..01\<close> is a mismatch; the derived zero Address lets the (successful) field validation decide.\<close>

theorem Run_undeclared_sender_witness:
  "Run (sample_collaborators (Inr (sample_tx None)) (Inr sample_address))
     (sample_fixture None (Some (sample_fields zero_Address))) ()
     = Returns (Some (ErrorString
         ''Sender mismatch: got 0000000000000000000000000000000000000001, want '')) \<and>
   Run (sample_collaborators (Inr (sample_tx None)) (Inr zero_Address))
     (sample_fixture None (Some (sample_fields zero_Address))) ()
     = Returns (Some (ErrorString ''field validations succeeded but should fail''))"
  using
    Run_undeclared_sender [of
      "sample_collaborators (Inr (sample_tx None)) (Inr sample_address)"
      "sample_fixture None (Some (sample_fields zero_Address))" "sample_tx None" "()"
      sample_address]
    Run_undeclared_sender [of
      "sample_collaborators (Inr (sample_tx None)) (Inr zero_Address)"
      "sample_fixture None (Some (sample_fields zero_Address))" "sample_tx None" "()"
      zero_Address]
  by (simp add: sample_collaborators_def sample_fixture_def sample_address_nonzero
      fmt_sample_address fmt_x_bytes_Nil bytes_of_def verify_sample)

text \<open>
  Claim C8. When the rlp bytes decode, the derived sender equals the Address of the
  fixture's sender bytes, and the fixture declares no transaction, \<^verbatim>\<open>Run\<close> calls
  \<^verbatim>\<open>verify\<close> on a nil pointer, which is dereferenced: the call panics and returns neither
  success nor an error.
\<close>

theorem Run_missing_transaction_panics:
  assumes "rlp_DecodeBytes env (RLP tt) = Inr tx"
    and "types_Sender env (types_MakeSigner env config (uint (BlockNumber tt))) tx = Inr sender"
    and "sender = BytesToAddress (bytes_of (Sender tt))"
    and "Transaction tt = None"
  shows "Run env tt config = Panics"
  using assms by (simp add: Run_def verify_nil)

text \<open>The sample fixture with a matching sender and no transaction.\<close>

theorem Run_missing_transaction_panics_witness:
  "Run (sample_collaborators (Inr (sample_tx None)) (Inr sample_address))
     (sample_fixture (Some [1]) None) () = Panics"
  using
    Run_missing_transaction_panics [of
      "sample_collaborators (Inr (sample_tx None)) (Inr sample_address)"
      "sample_fixture (Some [1]) None" "sample_tx None" "()" sample_address]
  by (simp add: sample_collaborators_def sample_fixture_def sample_address_def bytes_of_def)

section \<open>The decision after field validation\<close>






section \<open>Field validation\<close>

text \<open>
  Claim C5. Let the fields compared before the recipient agree. For a decoded transaction
  without recipient (a contract creation) the recipient statement passes exactly when the
  fixture's recipient is the all-zero Address: otherwise \<^verbatim>\<open>verify\<close> returns the error of
  the dedicated no-recipient check, which has no decoded Address to compare with. For a
  decoded transaction with a recipient, the statement passes exactly when the two Addresses
  are equal, and otherwise returns the error with both. When the statement passes,
  \<^verbatim>\<open>verify\<close> goes on to the value comparison.
\<close>

theorem verify_recipient:
  assumes "tx_Data tx = Data t" and "tx_Gas tx = GasLimit t"
    and "GasPrice t = Some (tx_GasPrice tx)" and "tx_Nonce tx = Nonce t"
    and "R t = Some (tx_R tx)" and "S t = Some (tx_S tx)" and "V t = Some (tx_V tx)"
  shows "(let rest = (case Value t of
                        None \<Rightarrow> Panics
                      | Some val \<Rightarrow>
                          if tx_Value tx \<noteq> val then
                            Returns (Some (ErrorString (''Value mismatch: got ''
                              @ fmt_x_Int (tx_Value tx) @ '', want '' @ fmt_x_Int val)))
                          else Returns None)
          in (tx_To tx = None \<longrightarrow>
                (To t \<noteq> zero_Address \<longrightarrow>
                   verify env (Some t) signer tx =
                     Returns (Some (ErrorString
                       (''To mismatch when recipient is nil (contract creation): ''
                         @ Address_Format_x env (To t))))) \<and>
                (To t = zero_Address \<longrightarrow> verify env (Some t) signer tx = rest)) \<and>
             (\<forall>to. tx_To tx = Some to \<longrightarrow>
                (to \<noteq> To t \<longrightarrow>
                   verify env (Some t) signer tx =
                     Returns (Some (ErrorString (''To mismatch: got '' @ Address_Format_x env to
                       @ '', want '' @ Address_Format_x env (To t))))) \<and>
                (to = To t \<longrightarrow> verify env (Some t) signer tx = rest)))"
  using assms by (simp add: verify_def Let_def split: option.split)

text \<open>A contract creation against the zero Address and against \<open>00..01\<close>, and a transaction to \<open>00..01\<close> against the same Address and against the zero Address.\<close>

theorem verify_recipient_witness:
  "verify (sample_collaborators (Inr (sample_tx None)) (Inr sample_address))
     (Some (sample_fields zero_Address)) () (sample_tx None) = Returns None \<and>
   verify (sample_collaborators (Inr (sample_tx None)) (Inr sample_address))
     (Some (sample_fields sample_address)) () (sample_tx None) =
     Returns (Some (ErrorString
       ''To mismatch when recipient is nil (contract creation): 0000000000000000000000000000000000000001'')) \<and>
   verify (sample_collaborators (Inr (sample_tx None)) (Inr sample_address))
     (Some (sample_fields sample_address)) () (sample_tx (Some sample_address)) = Returns None \<and>
   verify (sample_collaborators (Inr (sample_tx None)) (Inr sample_address))
     (Some (sample_fields zero_Address)) () (sample_tx (Some sample_address)) =
     Returns (Some (ErrorString
       ''To mismatch: got 0000000000000000000000000000000000000001, want 0000000000000000000000000000000000000000''))"
proof -
  let ?env = "sample_collaborators (Inr (sample_tx None)) (Inr sample_address)"
  have agree:
    "tx_Data (sample_tx a) = Data (sample_fields b)"
    "tx_Gas (sample_tx a) = GasLimit (sample_fields b)"
    "GasPrice (sample_fields b) = Some (tx_GasPrice (sample_tx a))"
    "tx_Nonce (sample_tx a) = Nonce (sample_fields b)"
    "R (sample_fields b) = Some (tx_R (sample_tx a))"
    "S (sample_fields b) = Some (tx_S (sample_tx a))"
    "V (sample_fields b) = Some (tx_V (sample_tx a))" for a b
    by (simp_all add: sample_tx_def sample_fields_def)
  have fmt: "Address_Format_x ?env a = fmt_x_bytes (Rep_Address a)" for a
    by (simp add: sample_collaborators_def)
  have fields: "tx_To (sample_tx a) = a" "To (sample_fields b) = b"
    "Value (sample_fields b) = Some 255" "tx_Value (sample_tx a) = 255" for a b
    by (simp_all add: sample_tx_def sample_fields_def)
  note nonzero = sample_address_nonzero sample_address_nonzero [symmetric]
  from verify_recipient [OF agree, of None zero_Address ?env "()"]
  have 1: "verify ?env (Some (sample_fields zero_Address)) () (sample_tx None) = Returns None"
    by (simp add: fields)
  from verify_recipient [OF agree, of None sample_address ?env "()"]
  have 2: "verify ?env (Some (sample_fields sample_address)) () (sample_tx None) =
     Returns (Some (ErrorString
       ''To mismatch when recipient is nil (contract creation): 0000000000000000000000000000000000000001''))"
    by (simp add: fields fmt fmt_sample_address nonzero)
  from verify_recipient [OF agree, of "Some sample_address" sample_address ?env "()"]
  have 3: "verify ?env (Some (sample_fields sample_address)) () (sample_tx (Some sample_address))
     = Returns None"
    by (simp add: fields)
  from verify_recipient [OF agree, of "Some sample_address" zero_Address ?env "()"]
  have 4: "verify ?env (Some (sample_fields zero_Address)) () (sample_tx (Some sample_address)) =
     Returns (Some (ErrorString
       ''To mismatch: got 0000000000000000000000000000000000000001, want 0000000000000000000000000000000000000000''))"
    by (simp add: fields fmt fmt_sample_address fmt_zero_Address nonzero)
  from 1 2 3 4 show ?thesis by simp
qed



section \<open>The error values\<close>

text \<open>
  Claim C9 asks that every error returned by a run carries the field name and the got and
  want values as data, apart from the message. The run below fails on the value field: the
  error it returns is an \<^verbatim>\<open>errorString\<close>, whose only component is the message; the field
  name and the two values are part of that text and of nothing else.
\<close>

theorem Run_error_values_counterexample:
  "Run (sample_collaborators (Inr (sample_tx None)) (Inr sample_address))
     (sample_fixture (Some [1]) (Some ((sample_fields zero_Address)\<lparr>Value := Some 256\<rparr>))) ()
   = Returns (Some (ErrorString
       ''field validations failed after RLP DEWHoding: Value mismatch: got ff, want 100''))"
  by (simp add: Run_def sample_collaborators_def sample_fixture_def bytes_of_def
      sample_address_def verify_def sample_fields_def sample_tx_def fmt_x_Int_samples Error_def)

text \<open>
  Claim C9, amended. An error returned by \<^verbatim>\<open>Run\<close> is either the error of the sender
  derivation, returned as it is, or an \<^verbatim>\<open>errorString\<close> built by \<^verbatim>\<open>Run\<close>, whose only
  content is its message: the decoder's message behind \<open>RLP DEWHoding failed\<close>, the
  formatted got and want of a sender mismatch, the fixed text for an unexpected success,
  or the message of the error of \<^verbatim>\<open>verify\<close>, itself an \<^verbatim>\<open>errorString\<close>, behind
  \<open>field validations failed after RLP DEWHoding\<close>.
\<close>

theorem Run_error_values:
  assumes "Run env tt config = Returns (Some e)"
    and "signer = types_MakeSigner env config (uint (BlockNumber tt))"
  shows "(\<exists>d. rlp_DecodeBytes env (RLP tt) = Inl d \<and>
              e = ErrorString (''RLP DEWHoding failed: '' @ Error env d)) \<or>
         (\<exists>tx. rlp_DecodeBytes env (RLP tt) = Inr tx \<and>
            (types_Sender env signer tx = Inl e \<or>
             (\<exists>sender. types_Sender env signer tx = Inr sender \<and>
                e = ErrorString (''Sender mismatch: got '' @ Address_Format_x env sender
                      @ '', want '' @ Bytes_Format_x env (Sender tt))) \<or>
             e = ErrorString ''field validations succeeded but should fail'' \<or>
             (\<exists>v. verify env (Transaction tt) signer tx = Returns (Some v) \<and> is_ErrorString v
                \<and> e = ErrorString
                      (''field validations failed after RLP DEWHoding: '' @ Error env v))))"
proof (cases "rlp_DecodeBytes env (RLP tt)")
  case (Inl d)
  with assms show ?thesis by (auto simp: Run_def split: if_splits)
next
  case (Inr tx)
  show ?thesis
  proof (cases "types_Sender env signer tx")
    case (Inl err)
    with Inr assms show ?thesis by (simp add: Run_def)
  next
    case sender: (Inr sender)
    show ?thesis
    proof (cases "sender \<noteq> BytesToAddress (bytes_of (Sender tt))")
      case True
      with Inr sender assms show ?thesis by (simp add: Run_def)
    next
      case False
      show ?thesis
      proof (cases "verify env (Transaction tt) signer tx")
        case Panics
        with Inr sender False assms show ?thesis by (simp add: Run_def)
      next
        case (Returns r)
        show ?thesis
        proof (cases r)
          case None
          with Returns Inr sender False assms show ?thesis
            by (simp add: Run_def split: if_splits)
        next
          case (Some v)
          with Returns have "is_ErrorString v" by (simp add: verify_error_is_message)
          with Some Returns Inr sender False assms show ?thesis
            by (simp add: Run_def split: if_splits)
        qed
      qed
    qed
  qed
qed

text \<open>The error of a run whose decoding fails.\<close>

theorem Run_error_values_witness:
  "Run (sample_collaborators (Inl (Collaborator ''rlp: too few elements'')) (Inr sample_address))
     (sample_fixture (Some [1]) (Some (sample_fields zero_Address))) ()
     = Returns (Some (ErrorString ''RLP DEWHoding failed: rlp: too few elements'')) \<and>
   (\<exists>d. rlp_DecodeBytes
          (sample_collaborators (Inl (Collaborator ''rlp: too few elements'')) (Inr sample_address))
          (RLP (sample_fixture (Some [1]) (Some (sample_fields zero_Address)))) = Inl d \<and>
        ErrorString ''RLP DEWHoding failed: rlp: too few elements'' =
          ErrorString (''RLP DEWHoding failed: ''
            @ Error (sample_collaborators (Inl (Collaborator ''rlp: too few elements''))
                (Inr sample_address)) d))"
proof -
  let ?env = "sample_collaborators (Inl (Collaborator ''rlp: too few elements''))
     (Inr sample_address)"
  let ?tt = "sample_fixture (Some [1]) (Some (sample_fields zero_Address))"
  have run: "Run ?env ?tt () =
      Returns (Some (ErrorString ''RLP DEWHoding failed: rlp: too few elements''))"
    by (simp add: Run_def sample_collaborators_def sample_fixture_def Error_def)
  have signer: "() = types_MakeSigner ?env () (uint (BlockNumber ?tt))"
    by simp
  have failed: "rlp_DecodeBytes ?env (RLP ?tt) = Inl (Collaborator ''rlp: too few elements'')"
    by (simp add: sample_collaborators_def)
  from Run_error_values [OF run signer] failed
  have "\<exists>d. rlp_DecodeBytes ?env (RLP ?tt) = Inl d \<and>
      ErrorString ''RLP DEWHoding failed: rlp: too few elements'' =
        ErrorString (''RLP DEWHoding failed: '' @ Error ?env d)"
    by simp
  with run show ?thesis by simp
qed

end
